theory Spec2Isabelle
  imports Complex_Main
begin

section \<open>Tensors\<close>

text \<open>
  The module \<^verbatim>\<open>gcp_unprocess.py\<close> computes on torch tensors of floating-point samples.
  The samples are modelled as real numbers, so every result below is a statement about
  the arithmetic the code performs, with rounding left out.

  A three-dimensional tensor is its shape together with its samples as nested lists
  (outermost index first).  The shape is kept beside the samples because a tensor may
  have a dimension of size 0, whose other sizes the nested lists alone would forget.
\<close>

record tensor3 =
  dim0 :: nat
  dim1 :: nat
  dim2 :: nat
  elems :: "real list list list"

definition tabulate3 :: "nat \<Rightarrow> nat \<Rightarrow> nat \<Rightarrow> (nat \<Rightarrow> nat \<Rightarrow> nat \<Rightarrow> real) \<Rightarrow> tensor3" where
  "tabulate3 a b c f =
     \<lparr>dim0 = a, dim1 = b, dim2 = c,
      elems = map (\<lambda>i. map (\<lambda>j. map (\<lambda>k. f i j k) [0..<c]) [0..<b]) [0..<a]\<rparr>"

definition at3 :: "tensor3 \<Rightarrow> nat \<Rightarrow> nat \<Rightarrow> nat \<Rightarrow> real" where
  "at3 t i j k = elems t ! i ! j ! k"

definition wf3 :: "tensor3 \<Rightarrow> bool" where
  "wf3 t \<longleftrightarrow>
     length (elems t) = dim0 t \<and>
     list_all (\<lambda>p. length p = dim1 t \<and> list_all (\<lambda>r. length r = dim2 t) p) (elems t)"

text \<open>\<open>has_shape t a b c\<close>: \<open>t\<close> is a tensor of shape \<open>(a, b, c)\<close>.\<close>

definition has_shape :: "tensor3 \<Rightarrow> nat \<Rightarrow> nat \<Rightarrow> nat \<Rightarrow> bool" where
  "has_shape t a b c \<longleftrightarrow> wf3 t \<and> dim0 t = a \<and> dim1 t = b \<and> dim2 t = c"

text \<open>\<^verbatim>\<open>t.permute(1, 2, 0)\<close> and \<^verbatim>\<open>t.permute(2, 0, 1)\<close>: the same samples, indexed in
  another order.\<close>

definition permute_120 :: "tensor3 \<Rightarrow> tensor3" where
  "permute_120 t = tabulate3 (dim1 t) (dim2 t) (dim0 t) (\<lambda>i j k. at3 t k i j)"

definition permute_201 :: "tensor3 \<Rightarrow> tensor3" where
  "permute_201 t = tabulate3 (dim2 t) (dim0 t) (dim1 t) (\<lambda>i j k. at3 t j k i)"

text \<open>An operation applied to every sample (arithmetic with a Python scalar,
  \<^verbatim>\<open>torch.sin\<close>, \<^verbatim>\<open>torch.asin\<close>, \<^verbatim>\<open>torch.clamp\<close>, \<^verbatim>\<open>**\<close>).\<close>

definition tmap :: "(real \<Rightarrow> real) \<Rightarrow> tensor3 \<Rightarrow> tensor3" where
  "tmap f t = tabulate3 (dim0 t) (dim1 t) (dim2 t) (\<lambda>i j k. f (at3 t i j k))"

text \<open>\<^verbatim>\<open>torch.clamp(x, min=lo, max=hi)\<close> and \<^verbatim>\<open>torch.clamp(x, min=lo)\<close> on one sample.\<close>

definition clamp :: "real \<Rightarrow> real \<Rightarrow> real \<Rightarrow> real" where
  "clamp lo hi x = min (max x lo) hi"

definition clamp_min :: "real \<Rightarrow> real \<Rightarrow> real" where
  "clamp_min lo x = max x lo"

section \<open>Tone curve and gamma\<close>

text \<open>
  \<^verbatim>\<open>
  def inverse_smoothstep(image):
      image = image.permute(1, 2, 0)
      image = torch.clamp(image, min=0.0, max=1.0)
      out = 0.5 - torch.sin(torch.asin(1.0 - 2.0 * image) / 3.0)
      out = out.permute(2, 0, 1)
      return out
  \<close>
\<close>

definition inverse_smoothstep :: "tensor3 \<Rightarrow> tensor3" where
  "inverse_smoothstep img =
     (let img = permute_120 img;
          img = tmap (clamp 0 1) img;
          out = tmap (\<lambda>x. 0.5 - sin (arcsin (1 - 2 * x) / 3)) img
      in permute_201 out)"

text \<open>The forward tone curve \<open>y = 3x\<^sup>2 - 2x\<^sup>3\<close> is not in the module; it is written here
  from the specification's formula, to state the round trip.\<close>

definition smoothstep_spec :: "real \<Rightarrow> real" where
  "smoothstep_spec x = 3 * x\<^sup>2 - 2 * x ^ 3"

text \<open>
  \<^verbatim>\<open>
  def gamma_expansion(image):
      image = image.permute(1, 2, 0)
      out = torch.clamp(image, min=1e-8)**2.2
      out = out.permute(2, 0, 1)
      return out
  \<close>
\<close>

definition gamma_expansion :: "tensor3 \<Rightarrow> tensor3" where
  "gamma_expansion img =
     (let img = permute_120 img;
          out = tmap (\<lambda>x. clamp_min (1 / 10 ^ 8) x powr 2.2) img
      in permute_201 out)"

section \<open>Outcomes that are not a value\<close>

text \<open>
  A call either returns a value (\<open>Inr\<close>) or it does not (\<open>Inl\<close>):
  \<^item> \<open>StackSizeMismatch\<close>: \<^verbatim>\<open>torch.stack\<close> raises, its arguments differ in size;
  \<^item> \<open>InvalidShape\<close>: \<^verbatim>\<open>torch.reshape\<close>, \<^verbatim>\<open>torch.tensordot\<close> or \<^verbatim>\<open>torch.inverse\<close>
    raises, the sizes do not fit the operation;
  \<^item> \<open>SingularMatrix\<close>: \<^verbatim>\<open>torch.inverse\<close> raises, the matrix has no inverse;
  \<^item> \<open>NonFinite\<close>: a division by zero.  torch does not raise here, it goes on with
    \<^verbatim>\<open>inf\<close> or \<^verbatim>\<open>nan\<close>; these are not real numbers, and the model follows the
    computation no further.
\<close>

datatype err = StackSizeMismatch | InvalidShape | SingularMatrix | NonFinite

section \<open>Reshaping and contraction\<close>

text \<open>The samples of a tensor in row-major order, as \<^verbatim>\<open>torch.reshape\<close> reads them.\<close>

definition flat3 :: "tensor3 \<Rightarrow> real list" where
  "flat3 t = concat (concat (elems t))"

text \<open>\<^verbatim>\<open>torch.reshape(t, [-1, c])\<close>: rows of \<open>c\<close> samples each.\<close>

definition reshape_rows :: "nat \<Rightarrow> real list \<Rightarrow> err + real list list" where
  "reshape_rows c xs =
     (if c = 0 \<or> length xs mod c \<noteq> 0 then Inl InvalidShape
      else Inr (map (\<lambda>n. map (\<lambda>k. xs ! (n * c + k)) [0..<c]) [0..<length xs div c]))"

text \<open>\<^verbatim>\<open>torch.reshape(t, (a, b, c))\<close>.\<close>

definition reshape3 :: "real list \<Rightarrow> nat \<times> nat \<times> nat \<Rightarrow> err + tensor3" where
  "reshape3 xs shape =
     (case shape of (a, b, c) \<Rightarrow>
        if length xs = a * b * c
        then Inr (tabulate3 a b c (\<lambda>i j k. xs ! ((i * b + j) * c + k)))
        else Inl InvalidShape)"

text \<open>A matrix (a two-dimensional tensor with no dimension of size 0) is the list of
  its rows.  \<^verbatim>\<open>torch.tensordot(rows, ccm, dims=[[-1], [-1]])\<close> contracts the last
  dimension of both arguments: \<open>out[n][i] = \<Sum>j. rows[n][j] * ccm[i][j]\<close>.\<close>

type_synonym matrix = "real list list"

definition dot :: "real list \<Rightarrow> real list \<Rightarrow> real" where
  "dot xs ys = sum_list (map2 (*) xs ys)"

definition tensordot_last :: "nat \<Rightarrow> real list list \<Rightarrow> matrix \<Rightarrow> err + real list list" where
  "tensordot_last c rows ccm =
     (if list_all (\<lambda>r. length r = c) ccm
      then Inr (map (\<lambda>p. map (\<lambda>r. dot p r) ccm) rows)
      else Inl InvalidShape)"

text \<open>
  \<^verbatim>\<open>
  def apply_ccm(image, ccm):
      image = image.permute(1, 2, 0)
      shape = image.size()
      image = torch.reshape(image, [-1, 3])
      image = torch.tensordot(image, ccm, dims=[[-1], [-1]])
      out = torch.reshape(image, shape)
      out = out.permute(2, 0, 1)
      return out
  \<close>
\<close>

definition apply_ccm :: "tensor3 \<Rightarrow> matrix \<Rightarrow> err + tensor3" where
  "apply_ccm img ccm =
     (let img = permute_120 img;
          shape = (dim0 img, dim1 img, dim2 img)
      in case reshape_rows 3 (flat3 img) of
           Inl e \<Rightarrow> Inl e
         | Inr rows \<Rightarrow>
             (case tensordot_last 3 rows ccm of
                Inl e \<Rightarrow> Inl e
              | Inr rows \<Rightarrow>
                  (case reshape3 (concat rows) shape of
                     Inl e \<Rightarrow> Inl e
                   | Inr out \<Rightarrow> Inr (permute_201 out))))"

section \<open>Gain inversion\<close>

text \<open>
  Elementwise operations on two tensors broadcast: a dimension of size 1 is repeated to
  the size of the other operand.  (torch raises when two sizes differ and neither is 1;
  on images with three channels the operations below never meet that case.)
\<close>

definition bdim :: "nat \<Rightarrow> nat \<Rightarrow> nat" where
  "bdim a b = (if a = 1 then b else a)"

definition bat3 :: "tensor3 \<Rightarrow> nat \<Rightarrow> nat \<Rightarrow> nat \<Rightarrow> real" where
  "bat3 t i j k =
     at3 t (if dim0 t = 1 then 0 else i) (if dim1 t = 1 then 0 else j) (if dim2 t = 1 then 0 else k)"

definition tzip :: "(real \<Rightarrow> real \<Rightarrow> real) \<Rightarrow> tensor3 \<Rightarrow> tensor3 \<Rightarrow> tensor3" where
  "tzip f s t =
     tabulate3 (bdim (dim0 s) (dim0 t)) (bdim (dim1 s) (dim1 t)) (bdim (dim2 s) (dim2 t))
       (\<lambda>i j k. f (bat3 s i j k) (bat3 t i j k))"

text \<open>\<^verbatim>\<open>torch.mean(t, dim=-1, keepdim=True)\<close>, for a last dimension of nonzero size.\<close>

definition mean_last :: "tensor3 \<Rightarrow> tensor3" where
  "mean_last t =
     tabulate3 (dim0 t) (dim1 t) 1 (\<lambda>i j k. sum_list (elems t ! i ! j) / real (dim2 t))"

text \<open>
  \<^verbatim>\<open>
  def safe_invert_gains(image, rgb_gain, red_gain, blue_gain):
      image = image.permute(1, 2, 0)
      gains = torch.stack(
          (1.0 / red_gain, torch.tensor([1.0]), 1.0 / blue_gain)) / rgb_gain
      gains = gains.squeeze()
      gains = gains[None, None, :]
      gray = torch.mean(image, dim=-1, keepdim=True)
      inflection = 0.9
      mask = (torch.clamp(gray - inflection, min=0.0) / (1.0 - inflection))**2.0
      safe_gains = torch.max(mask + (1.0 - mask) * gains, gains)
      out = image * safe_gains
      out = out.permute(2, 0, 1)
      return out
  \<close>
  The three gains are tensors of one sample each, modelled as real numbers; \<open>gains\<close>
  has shape \<open>(1, 1, 3)\<close>.

  The arithmetic is that of the reals.  It matters for the mask at its upper end: for a
  pixel of mean 1 the mask is \<open>((1 - 0.9) / (1 - 0.9))\<^sup>2\<close>, exactly 1 here, while in
  float32 the two differences round apart and the mask comes out slightly above 1
  (about 1.0000005).  Statements that the output equals a given value are therefore
  statements over the reals; the float32 output agrees with them up to rounding.
\<close>

definition safe_invert_gains :: "tensor3 \<Rightarrow> real \<Rightarrow> real \<Rightarrow> real \<Rightarrow> err + tensor3" where
  "safe_invert_gains img rgb_gain red_gain blue_gain =
     (if red_gain = 0 \<or> blue_gain = 0 \<or> rgb_gain = 0 then Inl NonFinite
      else
        let img = permute_120 img;
            gains = tabulate3 1 1 3 (\<lambda>i j k. [1 / red_gain, 1, 1 / blue_gain] ! k / rgb_gain);
            gray = mean_last img;
            inflection = 0.9;
            mask = tmap (\<lambda>g. (clamp_min 0 (g - inflection) / (1 - inflection))\<^sup>2) gray;
            safe_gains = tzip max (tzip (+) mask (tzip (*) (tmap (\<lambda>m. 1 - m) mask) gains)) gains;
            out = tzip (*) img safe_gains
        in Inr (permute_201 out))"

section \<open>Mosaic\<close>

record tensor2 =
  rows2 :: nat
  cols2 :: nat
  elems2 :: "real list list"

definition tabulate2 :: "nat \<Rightarrow> nat \<Rightarrow> (nat \<Rightarrow> nat \<Rightarrow> real) \<Rightarrow> tensor2" where
  "tabulate2 a b f = \<lparr>rows2 = a, cols2 = b, elems2 = map (\<lambda>i. map (\<lambda>j. f i j) [0..<b]) [0..<a]\<rparr>"

definition at2 :: "tensor2 \<Rightarrow> nat \<Rightarrow> nat \<Rightarrow> real" where
  "at2 t i j = elems2 t ! i ! j"

text \<open>\<^verbatim>\<open>t[r0::2, c0::2, ch]\<close> for \<open>r0, c0 \<in> {0, 1}\<close>: every second row from \<open>r0\<close>, every
  second column from \<open>c0\<close>, of channel \<open>ch\<close> (which the tensor must have: the module reads
  channels 0, 1 and 2 of images with three channels).\<close>

definition strided_plane :: "tensor3 \<Rightarrow> nat \<Rightarrow> nat \<Rightarrow> nat \<Rightarrow> tensor2" where
  "strided_plane t r0 c0 ch =
     tabulate2 ((dim0 t + 1 - r0) div 2) ((dim1 t + 1 - c0) div 2)
       (\<lambda>i j. at3 t (2 * i + r0) (2 * j + c0) ch)"

text \<open>\<^verbatim>\<open>torch.stack(ps, dim=-1)\<close>: the planes must all have the size of the first.\<close>

definition stack_last :: "tensor2 list \<Rightarrow> err + tensor3" where
  "stack_last ps =
     (case ps of
        [] \<Rightarrow> Inl InvalidShape
      | p # qs \<Rightarrow>
          if list_all (\<lambda>q. rows2 q = rows2 p \<and> cols2 q = cols2 p) qs
          then Inr (tabulate3 (rows2 p) (cols2 p) (length ps) (\<lambda>i j k. at2 (ps ! k) i j))
          else Inl StackSizeMismatch)"

text \<open>
  \<^verbatim>\<open>
  def mosaic(image):
      image = image.permute(1, 2, 0)
      shape = image.size()
      red = image[0::2, 0::2, 0]
      green_red = image[0::2, 1::2, 1]
      green_blue = image[1::2, 0::2, 1]
      blue = image[1::2, 1::2, 2]
      out = torch.stack((red, green_red, green_blue, blue), dim=-1)
      out = torch.reshape(out, (shape[0] // 2, shape[1] // 2, 4))
      out = out.permute(2, 0, 1)
      return out
  \<close>
\<close>

definition mosaic :: "tensor3 \<Rightarrow> err + tensor3" where
  "mosaic img =
     (let img = permute_120 img;
          shape = (dim0 img, dim1 img, dim2 img);
          red = strided_plane img 0 0 0;
          green_red = strided_plane img 0 1 1;
          green_blue = strided_plane img 1 0 1;
          blue = strided_plane img 1 1 2
      in case stack_last [red, green_red, green_blue, blue] of
           Inl e \<Rightarrow> Inl e
         | Inr out \<Rightarrow>
             (case reshape3 (flat3 out) (fst shape div 2, fst (snd shape) div 2, 4) of
                Inl e \<Rightarrow> Inl e
              | Inr out \<Rightarrow> Inr (permute_201 out)))"

section \<open>Random camera parameters\<close>

text \<open>
  The samplers draw from torch's global generator.  Its state is modelled by the outcomes
  it will deliver: the uniform draws on \<open>[0, 1)\<close> and the standard normal draws, each in
  the order of the calls, with the number of draws made so far.
\<close>

record rng =
  uniform_tape :: "nat \<Rightarrow> real"
  normal_tape :: "nat \<Rightarrow> real"
  upos :: nat
  npos :: nat

definition valid_rng :: "rng \<Rightarrow> bool" where
  "valid_rng s \<longleftrightarrow> (\<forall>n. 0 \<le> uniform_tape s n \<and> uniform_tape s n < 1)"

text \<open>\<^verbatim>\<open>torch.FloatTensor(1).uniform_(lo, hi)\<close>: \<open>lo + (hi - lo) * u\<close> for a uniform draw \<open>u\<close>.\<close>

definition uniform :: "real \<Rightarrow> real \<Rightarrow> rng \<Rightarrow> real \<times> rng" where
  "uniform lo hi s = (lo + (hi - lo) * uniform_tape s (upos s), s\<lparr>upos := upos s + 1\<rparr>)"

text \<open>\<^verbatim>\<open>torch.FloatTensor(n, 1, 1).uniform_(lo, hi)\<close>: \<open>n\<close> draws, in order.\<close>

fun uniform_n :: "nat \<Rightarrow> real \<Rightarrow> real \<Rightarrow> rng \<Rightarrow> real list \<times> rng" where
  "uniform_n 0 lo hi s = ([], s)"
| "uniform_n (Suc n) lo hi s =
     (let (x, s1) = uniform lo hi s;
          (xs, s2) = uniform_n n lo hi s1
      in (x # xs, s2))"

text \<open>\<^verbatim>\<open>tdist.Normal(loc, scale).sample()\<close>: \<open>loc + scale * z\<close> for a standard normal
  draw \<open>z\<close>, which may be any real number.\<close>

definition normal_sample :: "real \<Rightarrow> real \<Rightarrow> rng \<Rightarrow> real \<times> rng" where
  "normal_sample loc scale s = (loc + scale * normal_tape s (npos s), s\<lparr>npos := npos s + 1\<rparr>)"

definition xyz2cams :: "matrix list" where
  "xyz2cams =
     [[[1.0234, -0.2969, -0.2266], [-0.5625, 1.6328, -0.0469], [-0.0703, 0.2188, 0.6406]],
      [[0.4913, -0.0541, -0.0202], [-0.613, 1.3513, 0.2906], [-0.1564, 0.2151, 0.7183]],
      [[0.838, -0.263, -0.0639], [-0.2887, 1.0725, 0.2496], [-0.0627, 0.1427, 0.5438]],
      [[0.6596, -0.2079, -0.0562], [-0.4782, 1.3016, 0.1933], [-0.097, 0.1581, 0.5181]]]"

definition rgb2xyz :: matrix where
  "rgb2xyz =
     [[0.4124564, 0.3575761, 0.1804375],
      [0.2126729, 0.7151522, 0.0721750],
      [0.0193339, 0.1191920, 0.9503041]]"

text \<open>\<^verbatim>\<open>torch.sum(ms * weights, dim=0)\<close> for matrices \<open>ms\<close> of shape \<open>(n, 3, 3)\<close> and
  weights of shape \<open>(n, 1, 1)\<close>.\<close>

definition weighted_sum :: "matrix list \<Rightarrow> real list \<Rightarrow> matrix" where
  "weighted_sum ms ws =
     map (\<lambda>i. map (\<lambda>j. sum_list (map2 (\<lambda>m w. m ! i ! j * w) ms ws)) [0..<3]) [0..<3]"

text \<open>\<^verbatim>\<open>torch.mm(a, b)\<close>.\<close>

definition mm :: "matrix \<Rightarrow> matrix \<Rightarrow> matrix" where
  "mm a b = map (\<lambda>r. map (\<lambda>c. dot r c) (transpose b)) a"

text \<open>
  \<^verbatim>\<open>
  def random_ccm():
      xyz2cams = [...]
      num_ccms = len(xyz2cams)
      xyz2cams = torch.FloatTensor(xyz2cams)
      weights = torch.FloatTensor(num_ccms, 1, 1).uniform_(1e-8, 1e8)
      weights_sum = torch.sum(weights, dim=0)
      xyz2cam = torch.sum(xyz2cams * weights, dim=0) / weights_sum
      rgb2xyz = torch.FloatTensor([...])
      rgb2cam = torch.mm(xyz2cam, rgb2xyz)
      rgb2cam = rgb2cam / torch.sum(rgb2cam, dim=-1, keepdim=True)
      return rgb2cam
  \<close>
\<close>

definition random_ccm :: "rng \<Rightarrow> (err + matrix) \<times> rng" where
  "random_ccm s =
     (let num_ccms = length xyz2cams;
          (weights, s1) = uniform_n num_ccms (1 / 10 ^ 8) (10 ^ 8) s;
          weights_sum = sum_list weights
      in if weights_sum = 0 then (Inl NonFinite, s1)
         else
           let xyz2cam = map (map (\<lambda>x. x / weights_sum)) (weighted_sum xyz2cams weights);
               rgb2cam = mm xyz2cam rgb2xyz
           in if list_ex (\<lambda>r. sum_list r = 0) rgb2cam then (Inl NonFinite, s1)
              else (Inr (map (\<lambda>r. map (\<lambda>x. x / sum_list r) r) rgb2cam), s1))"

text \<open>
  \<^verbatim>\<open>
  def random_gains(rgb_gain_ratio=1.0,
                   red_gain_range=[1.9, 2.4],
                   blue_gain_range=[1.5, 1.9]):
      n = tdist.Normal(loc=torch.tensor([0.8]), scale=torch.tensor([0.1]))
      rgb_gain = 1.0 / n.sample()
      rgb_gain = rgb_gain_ratio * rgb_gain
      red_gain = torch.FloatTensor(1).uniform_(red_gain_range[0], red_gain_range[1])
      blue_gain = torch.FloatTensor(1).uniform_(blue_gain_range[0], blue_gain_range[1])
      return rgb_gain, red_gain, blue_gain
  \<close>
\<close>

definition random_gains ::
  "real \<Rightarrow> real list \<Rightarrow> real list \<Rightarrow> rng \<Rightarrow> (err + real \<times> real \<times> real) \<times> rng" where
  "random_gains rgb_gain_ratio red_gain_range blue_gain_range s =
     (let (n, s1) = normal_sample 0.8 0.1 s;
          (red_gain, s2) = uniform (red_gain_range ! 0) (red_gain_range ! 1) s1;
          (blue_gain, s3) = uniform (blue_gain_range ! 0) (blue_gain_range ! 1) s2
      in if n = 0 then (Inl NonFinite, s3)
         else
           let rgb_gain = 1 / n;
               rgb_gain = rgb_gain_ratio * rgb_gain
           in (Inr (rgb_gain, red_gain, blue_gain), s3))"

text \<open>The call \<^verbatim>\<open>random_gains()\<close>, with the default arguments.\<close>

definition random_gains_default :: "rng \<Rightarrow> (err + real \<times> real \<times> real) \<times> rng" where
  "random_gains_default = random_gains 1.0 [1.9, 2.4] [1.5, 1.9]"

section \<open>The pipeline\<close>

text \<open>\<^verbatim>\<open>torch.inverse(m)\<close> of a \<open>3 \<times> 3\<close> matrix, the only size the module inverts: the
  adjugate over the determinant.  Over the reals this is the inverse whenever there is one.\<close>

fun inverse3 :: "matrix \<Rightarrow> err + matrix" where
  "inverse3 [[a, b, c], [d, e, f], [g, h, i]] =
     (let det = a * (e * i - f * h) - b * (d * i - f * g) + c * (d * h - e * g)
      in if det = 0 then Inl SingularMatrix
         else Inr [[(e * i - f * h) / det, (c * h - b * i) / det, (b * f - c * e) / det],
                   [(f * g - d * i) / det, (a * i - c * g) / det, (c * d - a * f) / det],
                   [(d * h - e * g) / det, (b * g - a * h) / det, (a * e - b * d) / det]])"
| "inverse3 m = Inl InvalidShape"

record metadata =
  cam2rgb :: matrix
  rgb2cam :: matrix
  rgb_gain :: real
  red_gain :: real
  blue_gain :: real

text \<open>
  \<^verbatim>\<open>
  def unprocess(image):
      rgb2cam = random_ccm()
      cam2rgb = torch.inverse(rgb2cam)
      rgb_gain, red_gain, blue_gain = random_gains()
      image = inverse_smoothstep(image)
      image = gamma_expansion(image)
      image = apply_ccm(image, rgb2cam)
      image = safe_invert_gains(image, rgb_gain, red_gain, blue_gain)
      image = torch.clamp(image, min=0.0, max=1.0)
      image = mosaic(image)
      metadata = {'cam2rgb': cam2rgb, 'rgb2cam': rgb2cam, 'rgb_gain': rgb_gain,
                  'red_gain': red_gain, 'blue_gain': blue_gain}
      return image, metadata
  \<close>
  Each entry point takes the generator's state and returns it with its result.
\<close>

definition unprocess :: "tensor3 \<Rightarrow> rng \<Rightarrow> (err + tensor3 \<times> metadata) \<times> rng" where
  "unprocess img s =
     (case random_ccm s of
        (Inl e, s1) \<Rightarrow> (Inl e, s1)
      | (Inr m, s1) \<Rightarrow>
          (case inverse3 m of
             Inl e \<Rightarrow> (Inl e, s1)
           | Inr mi \<Rightarrow>
               (case random_gains_default s1 of
                  (Inl e, s2) \<Rightarrow> (Inl e, s2)
                | (Inr (g, r, b), s2) \<Rightarrow>
                    (let img = inverse_smoothstep img;
                         img = gamma_expansion img
                     in case apply_ccm img m of
                          Inl e \<Rightarrow> Inl e
                        | Inr img \<Rightarrow>
                            (case safe_invert_gains img g r b of
                               Inl e \<Rightarrow> Inl e
                             | Inr img \<Rightarrow>
                                 (let img = tmap (clamp 0 1) img
                                  in case mosaic img of
                                       Inl e \<Rightarrow> Inl e
                                     | Inr img \<Rightarrow>
                                         Inr (img, \<lparr>cam2rgb = mi, rgb2cam = m, rgb_gain = g,
                                                    red_gain = r, blue_gain = b\<rparr>))),
                     s2))))"

text \<open>
  \<^verbatim>\<open>
  def unprocess_gt(image):
      rgb2cam = random_ccm()
      cam2rgb = torch.inverse(rgb2cam)
      rgb_gain, red_gain, blue_gain = random_gains()
      image = inverse_smoothstep(image)
      image = gamma_expansion(image)
      image = apply_ccm(image, rgb2cam)
      image = safe_invert_gains(image, rgb_gain, red_gain, blue_gain)
      image = torch.clamp(image, min=0.0, max=1.0)
      # image = mosaic(image)
      metadata = {...}
      return image, metadata
  \<close>
\<close>

definition unprocess_gt :: "tensor3 \<Rightarrow> rng \<Rightarrow> (err + tensor3 \<times> metadata) \<times> rng" where
  "unprocess_gt img s =
     (case random_ccm s of
        (Inl e, s1) \<Rightarrow> (Inl e, s1)
      | (Inr m, s1) \<Rightarrow>
          (case inverse3 m of
             Inl e \<Rightarrow> (Inl e, s1)
           | Inr mi \<Rightarrow>
               (case random_gains_default s1 of
                  (Inl e, s2) \<Rightarrow> (Inl e, s2)
                | (Inr (g, r, b), s2) \<Rightarrow>
                    (let img = inverse_smoothstep img;
                         img = gamma_expansion img
                     in case apply_ccm img m of
                          Inl e \<Rightarrow> Inl e
                        | Inr img \<Rightarrow>
                            (case safe_invert_gains img g r b of
                               Inl e \<Rightarrow> Inl e
                             | Inr img \<Rightarrow>
                                 (let img = tmap (clamp 0 1) img
                                  in Inr (img, \<lparr>cam2rgb = mi, rgb2cam = m, rgb_gain = g,
                                                 red_gain = r, blue_gain = b\<rparr>))),
                     s2))))"

text \<open>
  \<^verbatim>\<open>
  def unprocess_meta_gt(image, rgb_gains, red_gains, blue_gains, rgb2cam, cam2rgb):
      image = inverse_smoothstep(image)
      image = gamma_expansion(image)
      image = apply_ccm(image, rgb2cam)
      image = safe_invert_gains(image, rgb_gains, red_gains, blue_gains)
      image = torch.clamp(image, min=0.0, max=1.0)
      # image = mosaic(image)
      metadata = {'cam2rgb': cam2rgb, 'rgb2cam': rgb2cam, 'rgb_gain': rgb_gains,
                  'red_gain': red_gains, 'blue_gain': blue_gains}
      return image, metadata
  \<close>
  The body calls no sampler, so the state of the generator is handed back as received.
\<close>

definition unprocess_meta_gt ::
  "tensor3 \<Rightarrow> real \<Rightarrow> real \<Rightarrow> real \<Rightarrow> matrix \<Rightarrow> matrix \<Rightarrow> rng
   \<Rightarrow> (err + tensor3 \<times> metadata) \<times> rng" where
  "unprocess_meta_gt img rgb_gains red_gains blue_gains m mi s =
     (let img = inverse_smoothstep img;
          img = gamma_expansion img
      in case apply_ccm img m of
           Inl e \<Rightarrow> Inl e
         | Inr img \<Rightarrow>
             (case safe_invert_gains img rgb_gains red_gains blue_gains of
                Inl e \<Rightarrow> Inl e
              | Inr img \<Rightarrow>
                  (let img = tmap (clamp 0 1) img
                   in Inr (img, \<lparr>cam2rgb = mi, rgb2cam = m, rgb_gain = rgb_gains,
                                  red_gain = red_gains, blue_gain = blue_gains\<rparr>))),
      s)"

section \<open>Predicates on images\<close>

text \<open>\<open>all_samples P t\<close>: every sample of \<open>t\<close> satisfies \<open>P\<close>.\<close>

definition all_samples :: "(real \<Rightarrow> bool) \<Rightarrow> tensor3 \<Rightarrow> bool" where
  "all_samples P t \<longleftrightarrow> list_all (list_all (list_all P)) (elems t)"

section \<open>Example inputs\<close>

text \<open>Two images of shape \<open>(3, 1, 2)\<close>: one with all samples in \<open>[0, 1]\<close>, one without.\<close>

definition example_unit_image :: tensor3 where
  "example_unit_image =
     \<lparr>dim0 = 3, dim1 = 1, dim2 = 2, elems = [[[0, 1]], [[1 / 2, 1]], [[1, 0]]]\<rparr>"

definition example_wide_image :: tensor3 where
  "example_wide_image =
     \<lparr>dim0 = 3, dim1 = 1, dim2 = 2, elems = [[[- 1, 2]], [[1 / 2, 1]], [[5, 0]]]\<rparr>"

section \<open>Auxiliary notions\<close>

text \<open>The two sub-expressions of \<open>safe_invert_gains\<close>, for one pixel: the gain of channel
  \<open>c\<close> before masking, and the mask of a pixel with samples \<open>x0, x1, x2\<close>.\<close>

definition plain_gain :: "real \<Rightarrow> real \<Rightarrow> real \<Rightarrow> nat \<Rightarrow> real" where
  "plain_gain g r b c = [1 / r, 1, 1 / b] ! c / g"

definition pixel_mask :: "real \<Rightarrow> real \<Rightarrow> real \<Rightarrow> real" where
  "pixel_mask x0 x1 x2 = (clamp_min 0 ((x0 + x1 + x2) / 3 - 0.9) / (1 - 0.9))\<^sup>2"




text \<open>A white pixel, a \<open>2 \<times> 2\<close> image, and three states of the generator: all uniform
  draws 1/2, and all normal draws 0, 3 or -9.\<close>

definition example_white_pixel :: tensor3 where
  "example_white_pixel = \<lparr>dim0 = 3, dim1 = 1, dim2 = 1, elems = [[[1]], [[1]], [[1]]]\<rparr>"

definition example_rng :: rng where
  "example_rng = \<lparr>uniform_tape = (\<lambda>n. 1 / 2), normal_tape = (\<lambda>n. 0), upos = 0, npos = 0\<rparr>"



definition example_image :: tensor3 where
  "example_image =
     \<lparr>dim0 = 3, dim1 = 2, dim2 = 2,
      elems = [[[1, 1 / 2], [0, 1]], [[1, 1 / 4], [1 / 2, 1]], [[1, 0], [1 / 8, 19 / 20]]]\<rparr>"

text \<open>The \<open>k\<close>-th weight that \<open>random_ccm\<close> draws in state \<open>s\<close>.\<close>

definition ccm_weight :: "rng \<Rightarrow> nat \<Rightarrow> real" where
  "ccm_weight s k = 1 / 10 ^ 8 + (10 ^ 8 - 1 / 10 ^ 8) * uniform_tape s (upos s + k)"

text \<open>The run of \<open>unprocess_gt\<close> on the \<open>2 \<times> 2\<close> image from the first example state:
  its image, its metadata and the state it leaves.\<close>

definition example_gt :: tensor3 where
  "example_gt = fst (projr (fst (unprocess_gt example_image example_rng)))"

definition example_md :: metadata where
  "example_md = snd (projr (fst (unprocess_gt example_image example_rng)))"

definition example_rng_after :: rng where
  "example_rng_after = snd (unprocess_gt example_image example_rng)"

section \<open>Tensor lemmas\<close>

lemma dims_tabulate3:
  "dim0 (tabulate3 a b c f) = a" "dim1 (tabulate3 a b c f) = b" "dim2 (tabulate3 a b c f) = c"
  by (simp_all add: tabulate3_def)

lemma wf3_tabulate3: "wf3 (tabulate3 a b c f)"
  by (simp add: wf3_def tabulate3_def list_all_iff)

lemma at3_tabulate3:
  "i < a \<Longrightarrow> j < b \<Longrightarrow> k < c \<Longrightarrow> at3 (tabulate3 a b c f) i j k = f i j k"
  by (simp add: at3_def tabulate3_def)

lemma tabulate3_cong:
  assumes "\<And>i j k. i < a \<Longrightarrow> j < b \<Longrightarrow> k < c \<Longrightarrow> f i j k = g i j k"
  shows "tabulate3 a b c f = tabulate3 a b c g"
  using assms by (simp add: tabulate3_def)

lemma tabulate3_at3:
  assumes "wf3 t"
  shows "tabulate3 (dim0 t) (dim1 t) (dim2 t) (at3 t) = t"
proof -
  have len: "length (elems t) = dim0 t"
    and rows: "\<And>p. p \<in> set (elems t) \<Longrightarrow> length p = dim1 t"
    and cols: "\<And>p r. p \<in> set (elems t) \<Longrightarrow> r \<in> set p \<Longrightarrow> length r = dim2 t"
    using assms by (auto simp: wf3_def list_all_iff)
  have "map (\<lambda>i. map (\<lambda>j. map (\<lambda>k. elems t ! i ! j ! k) [0..<dim2 t]) [0..<dim1 t]) [0..<dim0 t]
        = elems t"
  proof (rule nth_equalityI)
    show "length (map (\<lambda>i. map (\<lambda>j. map (\<lambda>k. elems t ! i ! j ! k) [0..<dim2 t]) [0..<dim1 t])
            [0..<dim0 t]) = length (elems t)"
      by (simp add: len)
  next
    fix i
    assume "i < length (map (\<lambda>i. map (\<lambda>j. map (\<lambda>k. elems t ! i ! j ! k) [0..<dim2 t])
               [0..<dim1 t]) [0..<dim0 t])"
    then have i: "i < dim0 t" by simp
    then have pin: "elems t ! i \<in> set (elems t)" by (simp add: len)
    have "map (\<lambda>j. map (\<lambda>k. elems t ! i ! j ! k) [0..<dim2 t]) [0..<dim1 t] = elems t ! i"
    proof (rule nth_equalityI)
      show "length (map (\<lambda>j. map (\<lambda>k. elems t ! i ! j ! k) [0..<dim2 t]) [0..<dim1 t])
            = length (elems t ! i)"
        by (simp add: rows [OF pin])
    next
      fix j
      assume "j < length (map (\<lambda>j. map (\<lambda>k. elems t ! i ! j ! k) [0..<dim2 t]) [0..<dim1 t])"
      then have j: "j < dim1 t" by simp
      then have rin: "elems t ! i ! j \<in> set (elems t ! i)" by (simp add: rows [OF pin])
      have "map (\<lambda>k. elems t ! i ! j ! k) [0..<dim2 t] = elems t ! i ! j"
        by (rule nth_equalityI) (simp_all add: cols [OF pin rin])
      then show "map (\<lambda>j. map (\<lambda>k. elems t ! i ! j ! k) [0..<dim2 t]) [0..<dim1 t] ! j
                 = elems t ! i ! j"
        using j by simp
    qed
    then show "map (\<lambda>i. map (\<lambda>j. map (\<lambda>k. elems t ! i ! j ! k) [0..<dim2 t]) [0..<dim1 t])
                 [0..<dim0 t] ! i = elems t ! i"
      using i by simp
  qed
  then show ?thesis
    by (simp add: tabulate3_def at3_def)
qed

lemma tensor3_eqI:
  assumes "wf3 s" "wf3 t"
    and "dim0 s = dim0 t" "dim1 s = dim1 t" "dim2 s = dim2 t"
    and "\<And>i j k. i < dim0 t \<Longrightarrow> j < dim1 t \<Longrightarrow> k < dim2 t \<Longrightarrow> at3 s i j k = at3 t i j k"
  shows "s = t"
proof -
  have "tabulate3 (dim0 t) (dim1 t) (dim2 t) (at3 s) = tabulate3 (dim0 t) (dim1 t) (dim2 t) (at3 t)"
    by (rule tabulate3_cong) (rule assms(6))
  moreover have "tabulate3 (dim0 t) (dim1 t) (dim2 t) (at3 s) = s"
    using tabulate3_at3 [OF assms(1)] by (simp only: assms(3-5))
  moreover have "tabulate3 (dim0 t) (dim1 t) (dim2 t) (at3 t) = t"
    by (rule tabulate3_at3 [OF assms(2)])
  ultimately show ?thesis
    by (simp only:)
qed

lemma has_shape_tabulate3: "has_shape (tabulate3 a b c f) a b c"
  by (simp add: has_shape_def wf3_tabulate3 dims_tabulate3)

lemma at3_inverse_smoothstep:
  assumes "c < dim0 img" "h < dim1 img" "w < dim2 img"
  shows "at3 (inverse_smoothstep img) c h w
         = 0.5 - sin (arcsin (1 - 2 * clamp 0 1 (at3 img c h w)) / 3)"
  using assms
  by (simp add: inverse_smoothstep_def permute_120_def permute_201_def tmap_def
      dims_tabulate3 at3_tabulate3)

lemma dims_inverse_smoothstep:
  "dim0 (inverse_smoothstep img) = dim0 img"
  "dim1 (inverse_smoothstep img) = dim1 img"
  "dim2 (inverse_smoothstep img) = dim2 img"
  by (simp_all add: inverse_smoothstep_def permute_120_def permute_201_def tmap_def
      dims_tabulate3)

lemma all_samples_iff:
  assumes "wf3 t"
  shows "all_samples P t \<longleftrightarrow> (\<forall>i<dim0 t. \<forall>j<dim1 t. \<forall>k<dim2 t. P (at3 t i j k))"
proof -
  have len: "length (elems t) = dim0 t"
    and rows: "\<And>i. i < dim0 t \<Longrightarrow> length (elems t ! i) = dim1 t"
    and cols: "\<And>i j. i < dim0 t \<Longrightarrow> j < dim1 t \<Longrightarrow> length (elems t ! i ! j) = dim2 t"
    using assms by (auto simp: wf3_def list_all_length)
  show ?thesis
    by (auto simp: all_samples_def list_all_length at3_def len rows cols)
qed

lemma sin_triple: "sin (3 * x) = 3 * sin x - 4 * sin x ^ 3" for x :: real
proof -
  have "sin (3 * x) = sin (2 * x + x)" by simp
  also have "\<dots> = 2 * sin x * cos x * cos x + (1 - 2 * (sin x)\<^sup>2) * sin x"
    by (simp only: sin_add sin_double cos_double_sin)
  also have "\<dots> = 2 * sin x * (cos x)\<^sup>2 + (1 - 2 * (sin x)\<^sup>2) * sin x"
    by (simp add: power2_eq_square)
  also have "\<dots> = 2 * sin x * (1 - (sin x)\<^sup>2) + (1 - 2 * (sin x)\<^sup>2) * sin x"
    by (simp only: cos_squared_eq)
  also have "\<dots> = 3 * sin x - 4 * sin x ^ 3"
    by (simp add: power2_eq_square power3_eq_cube algebra_simps)
  finally show ?thesis .
qed

lemma smoothstep_inverse_point:
  assumes "0 \<le> y" "y \<le> 1"
  shows "smoothstep_spec (0.5 - sin (arcsin (1 - 2 * y) / 3)) = y"
proof -
  define s where "s = sin (arcsin (1 - 2 * y) / 3)"
  have "3 * s - 4 * s ^ 3 = sin (3 * (arcsin (1 - 2 * y) / 3))"
    unfolding s_def by (rule sin_triple [symmetric])
  also have "\<dots> = 1 - 2 * y"
    using assms by simp
  finally have tri: "3 * s - 4 * s ^ 3 = 1 - 2 * y" .
  have "smoothstep_spec (0.5 - s) = 1 / 2 - (3 * s - 4 * s ^ 3) / 2"
    by (simp add: smoothstep_spec_def power2_eq_square power3_eq_cube field_simps)
  also have "\<dots> = 1 / 2 - (1 - 2 * y) / 2"
    by (simp only: tri)
  also have "\<dots> = y"
    by (simp add: field_simps)
  finally show ?thesis
    by (simp only: s_def)
qed

lemma clamp_id: "0 \<le> x \<Longrightarrow> x \<le> 1 \<Longrightarrow> clamp 0 1 x = x"
  by (simp add: clamp_def)

lemma clamp_unit: "0 \<le> clamp 0 1 x \<and> clamp 0 1 x \<le> 1"
  by (simp add: clamp_def)

lemma inverse_smoothstep_point_range:
  assumes "0 \<le> y" "y \<le> 1"
  shows "0 \<le> 0.5 - sin (arcsin (1 - 2 * y) / 3) \<and> 0.5 - sin (arcsin (1 - 2 * y) / 3) \<le> 1"
proof -
  define a where "a = arcsin (1 - 2 * y) / 3"
  have b: "- (pi / 2) \<le> arcsin (1 - 2 * y) \<and> arcsin (1 - 2 * y) \<le> pi / 2"
    using assms by (intro arcsin_bounded) simp_all
  then have a: "- (pi / 6) \<le> a" "a \<le> pi / 6"
    by (simp_all add: a_def)
  have "sin a \<le> sin (pi / 6)"
    using a pi_gt_zero by (intro sin_monotone_2pi_le) linarith+
  moreover have "sin (- (pi / 6)) \<le> sin a"
    using a pi_gt_zero by (intro sin_monotone_2pi_le) linarith+
  ultimately have "- (1 / 2) \<le> sin a" "sin a \<le> 1 / 2"
    by (simp_all add: sin_30)
  then show ?thesis
    unfolding a_def [symmetric] by simp
qed

section \<open>The tone curve\<close>

text \<open>
  Claim C7.  For every image whose samples all lie in \<open>[0, 1]\<close>, applying
  \<open>inverse_smoothstep\<close> and then the forward tone curve \<open>3x\<^sup>2 - 2x\<^sup>3\<close> to every sample
  gives the image back, exactly over the reals.
\<close>

theorem inverse_smoothstep_round_trip:
  assumes "wf3 img" and "all_samples (\<lambda>x. 0 \<le> x \<and> x \<le> 1) img"
  shows "tmap smoothstep_spec (inverse_smoothstep img) = img"
proof (rule tensor3_eqI)
  show "wf3 (tmap smoothstep_spec (inverse_smoothstep img))"
    by (simp add: tmap_def wf3_tabulate3)
  show "wf3 img" by fact
  show "dim0 (tmap smoothstep_spec (inverse_smoothstep img)) = dim0 img"
    "dim1 (tmap smoothstep_spec (inverse_smoothstep img)) = dim1 img"
    "dim2 (tmap smoothstep_spec (inverse_smoothstep img)) = dim2 img"
    by (simp_all add: tmap_def dims_tabulate3 dims_inverse_smoothstep)
next
  fix i j k
  assume ijk: "i < dim0 img" "j < dim1 img" "k < dim2 img"
  then have u: "0 \<le> at3 img i j k" "at3 img i j k \<le> 1"
    using assms by (simp_all add: all_samples_iff)
  show "at3 (tmap smoothstep_spec (inverse_smoothstep img)) i j k = at3 img i j k"
    using ijk u
    by (simp only: tmap_def dims_inverse_smoothstep at3_tabulate3 at3_inverse_smoothstep
        clamp_id smoothstep_inverse_point)
qed

theorem inverse_smoothstep_round_trip_witness:
  "wf3 example_unit_image \<and> all_samples (\<lambda>x. 0 \<le> x \<and> x \<le> 1) example_unit_image \<and>
   tmap smoothstep_spec (inverse_smoothstep example_unit_image) = example_unit_image"
  using inverse_smoothstep_round_trip [of example_unit_image]
  by (simp add: example_unit_image_def wf3_def all_samples_def)

text \<open>
  Claim C9.  For every image of shape \<open>(3, H, W)\<close>, whatever its samples, the output of
  \<open>inverse_smoothstep\<close> has the same shape and all its samples lie in \<open>[0, 1]\<close>.
\<close>

theorem inverse_smoothstep_range:
  assumes "has_shape img 3 H W"
  shows "has_shape (inverse_smoothstep img) 3 H W \<and>
         all_samples (\<lambda>x. 0 \<le> x \<and> x \<le> 1) (inverse_smoothstep img)"
proof -
  have d: "dim0 img = 3" "dim1 img = H" "dim2 img = W"
    using assms by (simp_all add: has_shape_def)
  have wf: "wf3 (inverse_smoothstep img)"
    by (simp add: inverse_smoothstep_def permute_201_def wf3_tabulate3 Let_def)
  have "0 \<le> at3 (inverse_smoothstep img) i j k \<and> at3 (inverse_smoothstep img) i j k \<le> 1"
    if "i < dim0 img" "j < dim1 img" "k < dim2 img" for i j k
  proof -
    have "0 \<le> clamp 0 1 (at3 img i j k)" "clamp 0 1 (at3 img i j k) \<le> 1"
      using clamp_unit by simp_all
    from inverse_smoothstep_point_range [OF this] show ?thesis
      by (simp only: at3_inverse_smoothstep [OF that])
  qed
  then show ?thesis
    using wf d by (simp add: has_shape_def all_samples_iff dims_inverse_smoothstep)
qed

theorem inverse_smoothstep_range_witness:
  "has_shape example_wide_image 3 1 2 \<and> has_shape (inverse_smoothstep example_wide_image) 3 1 2 \<and>
   all_samples (\<lambda>x. 0 \<le> x \<and> x \<le> 1) (inverse_smoothstep example_wide_image)"
proof -
  have h: "has_shape example_wide_image 3 1 2"
    by (simp add: example_wide_image_def has_shape_def wf3_def)
  from inverse_smoothstep_range [OF h] h show ?thesis
    by simp
qed

section \<open>Random gains\<close>

lemma random_gains_default_eq:
  "random_gains_default s =
     (if 0.8 + 0.1 * normal_tape s (npos s) = 0 then Inl NonFinite
      else Inr (1 / (0.8 + 0.1 * normal_tape s (npos s)),
                1.9 + 0.5 * uniform_tape s (upos s),
                1.5 + 0.4 * uniform_tape s (upos s + 1)),
      s\<lparr>upos := upos s + 2, npos := npos s + 1\<rparr>)"
  by (simp add: random_gains_default_def random_gains_def normal_sample_def uniform_def Let_def)




section \<open>Broadcasting and gain inversion\<close>

lemma bdim_simps:
  "bdim a 1 = a" "bdim 1 b = b" "bdim a a = a" "bdim a (Suc 0) = a" "bdim (Suc 0) b = b"
  by (simp_all add: bdim_def)

lemma bat3_full:
  "i < dim0 t \<Longrightarrow> j < dim1 t \<Longrightarrow> k < dim2 t \<Longrightarrow> bat3 t i j k = at3 t i j k"
  by (auto simp: bat3_def)

lemma bat3_last1:
  "dim2 t = 1 \<Longrightarrow> i < dim0 t \<Longrightarrow> j < dim1 t \<Longrightarrow> bat3 t i j k = at3 t i j 0"
  by (auto simp: bat3_def)

lemma bat3_row:
  "dim0 t = 1 \<Longrightarrow> dim1 t = 1 \<Longrightarrow> k < dim2 t \<Longrightarrow> bat3 t i j k = at3 t 0 0 k"
  by (cases "dim2 t = 1") (simp_all add: bat3_def)

lemma dims_tzip:
  "dim0 (tzip f s t) = bdim (dim0 s) (dim0 t)"
  "dim1 (tzip f s t) = bdim (dim1 s) (dim1 t)"
  "dim2 (tzip f s t) = bdim (dim2 s) (dim2 t)"
  by (simp_all add: tzip_def dims_tabulate3)

lemma at3_tzip:
  "i < bdim (dim0 s) (dim0 t) \<Longrightarrow> j < bdim (dim1 s) (dim1 t) \<Longrightarrow> k < bdim (dim2 s) (dim2 t)
   \<Longrightarrow> at3 (tzip f s t) i j k = f (bat3 s i j k) (bat3 t i j k)"
  by (simp add: tzip_def at3_tabulate3)

lemma dims_tmap:
  "dim0 (tmap f t) = dim0 t" "dim1 (tmap f t) = dim1 t" "dim2 (tmap f t) = dim2 t"
  by (simp_all add: tmap_def dims_tabulate3)

lemma at3_tmap:
  "i < dim0 t \<Longrightarrow> j < dim1 t \<Longrightarrow> k < dim2 t \<Longrightarrow> at3 (tmap f t) i j k = f (at3 t i j k)"
  by (simp add: tmap_def at3_tabulate3)

lemma wf3_tmap: "wf3 (tmap f t)"
  by (simp add: tmap_def wf3_tabulate3)

lemma dims_permute_120:
  "dim0 (permute_120 t) = dim1 t" "dim1 (permute_120 t) = dim2 t" "dim2 (permute_120 t) = dim0 t"
  by (simp_all add: permute_120_def dims_tabulate3)

lemma dims_permute_201:
  "dim0 (permute_201 t) = dim2 t" "dim1 (permute_201 t) = dim0 t" "dim2 (permute_201 t) = dim1 t"
  by (simp_all add: permute_201_def dims_tabulate3)

lemma at3_permute_120:
  "i < dim1 t \<Longrightarrow> j < dim2 t \<Longrightarrow> k < dim0 t \<Longrightarrow> at3 (permute_120 t) i j k = at3 t k i j"
  by (simp add: permute_120_def at3_tabulate3)

lemma at3_permute_201:
  "i < dim2 t \<Longrightarrow> j < dim0 t \<Longrightarrow> k < dim1 t \<Longrightarrow> at3 (permute_201 t) i j k = at3 t j k i"
  by (simp add: permute_201_def at3_tabulate3)

lemma wf3_permute_201: "wf3 (permute_201 t)"
  by (simp add: permute_201_def wf3_tabulate3)

lemma sum_list_upt3: "sum_list (map f [0..<3]) = f 0 + f 1 + (f 2 :: real)"
  by (simp add: upt_rec numeral_3_eq_3 numeral_2_eq_2)

lemma dims_mean_last:
  "dim0 (mean_last t) = dim0 t" "dim1 (mean_last t) = dim1 t" "dim2 (mean_last t) = 1"
  by (simp_all add: mean_last_def dims_tabulate3)

lemma at3_mean_last_permute:
  assumes "dim0 t = 3" "i < dim1 t" "j < dim2 t"
  shows "at3 (mean_last (permute_120 t)) i j 0 = (at3 t 0 i j + at3 t 1 i j + at3 t 2 i j) / 3"
proof -
  have "elems (permute_120 t) ! i ! j = map (\<lambda>k. at3 t k i j) [0..<3]"
    using assms by (simp add: permute_120_def tabulate3_def)
  then show ?thesis
    using assms by (simp add: mean_last_def dims_permute_120 at3_tabulate3 sum_list_upt3)
qed

lemma safe_invert_gains_Inr:
  assumes "rg \<noteq> 0" "r \<noteq> 0" "b \<noteq> 0"
  shows "\<exists>out. safe_invert_gains img rg r b = Inr out"
  using assms by (simp add: safe_invert_gains_def Let_def)

lemma safe_invert_gains_at3:
  assumes nz: "rg \<noteq> 0" "r \<noteq> 0" "b \<noteq> 0"
    and d0: "dim0 img = 3"
    and out: "safe_invert_gains img rg r b = Inr out"
  shows "dim0 out = 3 \<and> dim1 out = dim1 img \<and> dim2 out = dim2 img \<and> wf3 out"
    and "c < 3 \<Longrightarrow> h < dim1 img \<Longrightarrow> w < dim2 img \<Longrightarrow>
         at3 out c h w =
           at3 img c h w *
             max (pixel_mask (at3 img 0 h w) (at3 img 1 h w) (at3 img 2 h w)
                  + (1 - pixel_mask (at3 img 0 h w) (at3 img 1 h w) (at3 img 2 h w))
                    * plain_gain rg r b c)
                 (plain_gain rg r b c)"
proof -
  define hwc where "hwc = permute_120 img"
  define gains where "gains = tabulate3 1 1 3 (\<lambda>i j k. [1 / r, 1, 1 / b] ! k / rg)"
  define mask where "mask = tmap (\<lambda>g. (clamp_min 0 (g - 0.9) / (1 - 0.9))\<^sup>2) (mean_last hwc)"
  define blend where "blend = tzip (+) mask (tzip (*) (tmap (\<lambda>m. 1 - m) mask) gains)"
  define safe_gains where "safe_gains = tzip max blend gains"
  have out_eq: "out = permute_201 (tzip (*) hwc safe_gains)"
    using out nz
    by (simp add: safe_invert_gains_def Let_def hwc_def gains_def mask_def blend_def safe_gains_def)
  have dh: "dim0 hwc = dim1 img" "dim1 hwc = dim2 img" "dim2 hwc = 3"
    by (simp_all add: hwc_def dims_permute_120 d0)
  have dg: "dim0 gains = 1" "dim1 gains = 1" "dim2 gains = 3"
    by (simp_all add: gains_def dims_tabulate3)
  have dm: "dim0 mask = dim1 img" "dim1 mask = dim2 img" "dim2 mask = 1"
    by (simp_all add: mask_def dims_tmap dims_mean_last dh)
  have db: "dim0 blend = dim1 img" "dim1 blend = dim2 img" "dim2 blend = 3"
    by (simp_all add: blend_def dims_tzip dims_tmap dm dg bdim_simps)
  have ds: "dim0 safe_gains = dim1 img" "dim1 safe_gains = dim2 img" "dim2 safe_gains = 3"
    by (simp_all add: safe_gains_def dims_tzip db dg bdim_simps)
  have dp: "dim0 (tzip (*) hwc safe_gains) = dim1 img" "dim1 (tzip (*) hwc safe_gains) = dim2 img"
    "dim2 (tzip (*) hwc safe_gains) = 3"
    by (simp_all add: dims_tzip dh ds bdim_simps)
  show "dim0 out = 3 \<and> dim1 out = dim1 img \<and> dim2 out = dim2 img \<and> wf3 out"
    by (simp add: out_eq dims_permute_201 dp wf3_permute_201)
  assume c: "c < 3" and h: "h < dim1 img" and w: "w < dim2 img"
  let ?m = "pixel_mask (at3 img 0 h w) (at3 img 1 h w) (at3 img 2 h w)"
  let ?g = "plain_gain rg r b c"
  have g: "at3 gains 0 0 c = ?g"
    using c by (simp add: gains_def at3_tabulate3 plain_gain_def)
  have ml: "at3 (mean_last hwc) h w 0 = (at3 img 0 h w + at3 img 1 h w + at3 img 2 h w) / 3"
    unfolding hwc_def using d0 h w by (rule at3_mean_last_permute)
  have m: "at3 mask h w 0 = ?m"
    using h w by (simp add: mask_def at3_tmap dims_mean_last dh ml pixel_mask_def)
  have bg: "bat3 gains h w c = ?g"
    using c by (simp add: bat3_row dg g)
  have bm: "bat3 mask h w c = ?m"
    using h w by (simp add: bat3_last1 dm m)
  have bm1: "bat3 (tmap (\<lambda>m. 1 - m) mask) h w c = 1 - ?m"
    using h w by (simp add: bat3_last1 dims_tmap dm at3_tmap m)
  have prod: "at3 (tzip (*) (tmap (\<lambda>m. 1 - m) mask) gains) h w c = (1 - ?m) * ?g"
    using h w c by (simp add: at3_tzip dims_tmap dm dg bdim_simps bm1 bg)
  have bprod: "bat3 (tzip (*) (tmap (\<lambda>m. 1 - m) mask) gains) h w c = (1 - ?m) * ?g"
    using h w c by (simp add: bat3_full dims_tzip dims_tmap dm dg bdim_simps prod)
  have bl: "at3 blend h w c = ?m + (1 - ?m) * ?g"
    using h w c by (simp add: blend_def at3_tzip dims_tzip dims_tmap dm dg bdim_simps bm bprod)
  have bbl: "bat3 blend h w c = ?m + (1 - ?m) * ?g"
    using h w c by (simp add: bat3_full db bl)
  have sg: "at3 safe_gains h w c = max (?m + (1 - ?m) * ?g) ?g"
    using h w c by (simp add: safe_gains_def at3_tzip db dg bdim_simps bbl bg)
  have bsg: "bat3 safe_gains h w c = max (?m + (1 - ?m) * ?g) ?g"
    using h w c by (simp add: bat3_full ds sg)
  have "bat3 hwc h w c = at3 hwc h w c"
    using h w c by (simp add: bat3_full dh)
  also have "\<dots> = at3 img c h w"
    using h w c by (simp add: hwc_def at3_permute_120 d0)
  finally have bh: "bat3 hwc h w c = at3 img c h w" .
  have "at3 out c h w = at3 (tzip (*) hwc safe_gains) h w c"
    using h w c by (simp add: out_eq at3_permute_201 dp)
  also have "\<dots> = at3 img c h w * max (?m + (1 - ?m) * ?g) ?g"
    using h w c by (simp add: at3_tzip dh ds bdim_simps bh bsg)
  finally show "at3 out c h w = at3 img c h w * max (?m + (1 - ?m) * ?g) ?g" .
qed









text \<open>
  Claim C10.  For every image of shape \<open>(3, H, W)\<close> with nonnegative samples and all
  positive gains, \<open>safe_invert_gains\<close> returns an image of the same shape, each sample
  of which is at least the sample times the plain gain
  \<open>(1/red_gain, 1, 1/blue_gain)/rgb_gain\<close> of its channel.
\<close>

theorem safe_invert_gains_never_dims:
  assumes "has_shape img 3 H W" and "all_samples (\<lambda>x. 0 \<le> x) img"
    and "0 < g" and "0 < r" and "0 < b"
  shows "\<exists>out. safe_invert_gains img g r b = Inr out \<and> has_shape out 3 H W \<and>
           (\<forall>c<3. \<forall>h<H. \<forall>w<W. at3 img c h w * ([1 / r, 1, 1 / b] ! c / g) \<le> at3 out c h w)"
proof -
  have nz: "g \<noteq> 0" "r \<noteq> 0" "b \<noteq> 0"
    using assms(3-5) by simp_all
  have d: "wf3 img" "dim0 img = 3" "dim1 img = H" "dim2 img = W"
    using assms(1) by (simp_all add: has_shape_def)
  obtain out where out: "safe_invert_gains img g r b = Inr out"
    using safe_invert_gains_Inr [OF nz] by blast
  note fm = safe_invert_gains_at3 [OF nz d(2) out]
  have sh: "has_shape out 3 H W"
    using fm(1) d by (simp add: has_shape_def)
  have "at3 img c h w * ([1 / r, 1, 1 / b] ! c / g) \<le> at3 out c h w"
    if "c < 3" "h < H" "w < W" for c h w
  proof -
    have pos: "0 \<le> at3 img c h w"
      using assms(2) that d by (simp add: all_samples_iff)
    have "at3 img c h w * plain_gain g r b c
          \<le> at3 img c h w *
              max (pixel_mask (at3 img 0 h w) (at3 img 1 h w) (at3 img 2 h w)
                   + (1 - pixel_mask (at3 img 0 h w) (at3 img 1 h w) (at3 img 2 h w))
                     * plain_gain g r b c)
                  (plain_gain g r b c)"
      using pos by (intro mult_left_mono) simp_all
    then show ?thesis
      using fm(2) [of c h w] that d by (simp add: plain_gain_def)
  qed
  then show ?thesis
    using out sh by blast
qed

theorem safe_invert_gains_never_dims_witness:
  "has_shape example_image 3 2 2 \<and> all_samples (\<lambda>x. 0 \<le> x) example_image \<and>
   (\<exists>out. safe_invert_gains example_image (5 / 4) 2 (3 / 2) = Inr out \<and> has_shape out 3 2 2 \<and>
      (\<forall>c<3. \<forall>h<2. \<forall>w<2.
         at3 example_image c h w * ([1 / 2, 1, 1 / (3 / 2)] ! c / (5 / 4)) \<le> at3 out c h w))"
proof -
  have sh: "has_shape example_image 3 2 2"
    by (simp add: example_image_def has_shape_def wf3_def)
  have nn: "all_samples (\<lambda>x. 0 \<le> x) example_image"
    by (simp add: example_image_def all_samples_def)
  from safe_invert_gains_never_dims [OF sh nn, of "5 / 4" 2 "3 / 2"] sh nn show ?thesis
    by simp
qed

section \<open>Mosaic\<close>

lemma length_concat_uniform:
  "\<forall>xs\<in>set xss. length xs = n \<Longrightarrow> length (concat xss) = length xss * n"
  by (induction xss) simp_all

lemma nth_concat_uniform:
  "\<forall>xs\<in>set xss. length xs = n \<Longrightarrow> i < length xss \<Longrightarrow> j < n
   \<Longrightarrow> concat xss ! (i * n + j) = xss ! i ! j"
proof (induction xss arbitrary: i)
  case Nil
  then show ?case by simp
next
  case (Cons xs xss)
  show ?case
  proof (cases i)
    case 0
    then show ?thesis using Cons.prems by (simp add: nth_append)
  next
    case (Suc i')
    then show ?thesis
      using Cons.prems Cons.IH [of i'] by (simp add: nth_append)
  qed
qed

lemma length_flat3:
  assumes "wf3 t"
  shows "length (flat3 t) = dim0 t * dim1 t * dim2 t"
proof -
  have a: "length (elems t) = dim0 t" and b: "\<forall>p\<in>set (elems t). length p = dim1 t"
    and c: "\<forall>p\<in>set (elems t). \<forall>r\<in>set p. length r = dim2 t"
    using assms by (auto simp: wf3_def list_all_iff)
  have "\<forall>r\<in>set (concat (elems t)). length r = dim2 t"
    using c by auto
  then have "length (flat3 t) = length (concat (elems t)) * dim2 t"
    unfolding flat3_def by (rule length_concat_uniform)
  also have "length (concat (elems t)) = dim0 t * dim1 t"
    using length_concat_uniform [OF b] a by simp
  finally show ?thesis .
qed

lemma nth_flat3:
  assumes "wf3 t" "i < dim0 t" "j < dim1 t" "k < dim2 t"
  shows "flat3 t ! ((i * dim1 t + j) * dim2 t + k) = at3 t i j k"
proof -
  have a: "length (elems t) = dim0 t" and b: "\<forall>p\<in>set (elems t). length p = dim1 t"
    and c: "\<forall>p\<in>set (elems t). \<forall>r\<in>set p. length r = dim2 t"
    using assms(1) by (auto simp: wf3_def list_all_iff)
  have c': "\<forall>r\<in>set (concat (elems t)). length r = dim2 t"
    using c by auto
  have len: "length (concat (elems t)) = dim0 t * dim1 t"
    using length_concat_uniform [OF b] a by simp
  have "i * dim1 t + j < Suc i * dim1 t"
    using assms(3) by simp
  also have "\<dots> \<le> dim0 t * dim1 t"
    using assms(2) by (intro mult_le_mono1) simp
  finally have lt: "i * dim1 t + j < length (concat (elems t))"
    by (simp add: len)
  have "flat3 t ! ((i * dim1 t + j) * dim2 t + k) = concat (elems t) ! (i * dim1 t + j) ! k"
    unfolding flat3_def using c' lt assms(4) by (rule nth_concat_uniform)
  also have "concat (elems t) ! (i * dim1 t + j) = elems t ! i ! j"
    using b _ assms(3) by (rule nth_concat_uniform) (simp add: a assms(2))
  finally show ?thesis
    by (simp add: at3_def)
qed

lemma reshape3_same_shape:
  assumes "wf3 t"
  shows "reshape3 (flat3 t) (dim0 t, dim1 t, dim2 t) = Inr t"
proof -
  have "tabulate3 (dim0 t) (dim1 t) (dim2 t) (\<lambda>i j k. flat3 t ! ((i * dim1 t + j) * dim2 t + k))
        = tabulate3 (dim0 t) (dim1 t) (dim2 t) (at3 t)"
    by (rule tabulate3_cong) (rule nth_flat3 [OF assms])
  then show ?thesis
    by (simp add: reshape3_def length_flat3 [OF assms] tabulate3_at3 [OF assms])
qed

lemma dims_tabulate2: "rows2 (tabulate2 a b f) = a" "cols2 (tabulate2 a b f) = b"
  by (simp_all add: tabulate2_def)

lemma at2_tabulate2: "i < a \<Longrightarrow> j < b \<Longrightarrow> at2 (tabulate2 a b f) i j = f i j"
  by (simp add: at2_def tabulate2_def)

lemma mosaic_odd:
  assumes "odd (dim1 img) \<or> odd (dim2 img)"
  shows "mosaic img = Inl StackSizeMismatch"
proof -
  have "(dim1 img + 1) div 2 \<noteq> dim1 img div 2 \<or> (dim2 img + 1) div 2 \<noteq> dim2 img div 2"
    using assms by (auto elim!: oddE)
  then show ?thesis
    by (auto simp add: mosaic_def Let_def stack_last_def strided_plane_def dims_tabulate2
        dims_permute_120)
qed

lemma mosaic_even:
  assumes d: "dim0 img = 3" "dim1 img = H" "dim2 img = W" and ev: "even H" "even W"
  shows "\<exists>out. mosaic img = Inr out \<and> has_shape out 4 (H div 2) (W div 2) \<and>
           (\<forall>i<H div 2. \<forall>j<W div 2.
              at3 out 0 i j = at3 img 0 (2 * i) (2 * j) \<and>
              at3 out 1 i j = at3 img 1 (2 * i) (2 * j + 1) \<and>
              at3 out 2 i j = at3 img 1 (2 * i + 1) (2 * j) \<and>
              at3 out 3 i j = at3 img 2 (2 * i + 1) (2 * j + 1))"
proof -
  define hwc where "hwc = permute_120 img"
  define ps where "ps = [strided_plane hwc 0 0 0, strided_plane hwc 0 1 1,
                         strided_plane hwc 1 0 1, strided_plane hwc 1 1 2]"
  define st where "st = tabulate3 (H div 2) (W div 2) 4 (\<lambda>i j k. at2 (ps ! k) i j)"
  have dh: "dim0 hwc = H" "dim1 hwc = W" "dim2 hwc = 3"
    by (simp_all add: hwc_def dims_permute_120 d)
  have half: "Suc H div 2 = H div 2" "Suc W div 2 = W div 2"
    using ev by (auto elim!: evenE)
  have four: "Suc (Suc (Suc (Suc 0))) = (4::nat)"
    by simp
  have stack: "stack_last ps = Inr st"
    by (simp add: stack_last_def ps_def st_def strided_plane_def dims_tabulate2 dh half four)
  have dst: "dim0 st = H div 2" "dim1 st = W div 2" "dim2 st = 4"
    by (simp_all add: st_def dims_tabulate3)
  have wst: "wf3 st"
    by (simp add: st_def wf3_tabulate3)
  have resh: "reshape3 (flat3 st) (H div 2, W div 2, 4) = Inr st"
    using reshape3_same_shape [OF wst] by (simp add: dst)
  have m: "mosaic img = Inr (permute_201 st)"
    unfolding mosaic_def Let_def hwc_def [symmetric] ps_def [symmetric]
    by (simp add: stack resh dh)
  have sh: "has_shape (permute_201 st) 4 (H div 2) (W div 2)"
    by (simp add: has_shape_def permute_201_def wf3_tabulate3 dims_tabulate3 dst)
  have el: "at3 (permute_201 st) k i j = at2 (ps ! k) i j"
    if "k < 4" "i < H div 2" "j < W div 2" for i j k
    using that by (simp add: permute_201_def at3_tabulate3 dst) (simp add: st_def at3_tabulate3)
  have px: "at3 hwc (2 * i + r) (2 * j + c) k = at3 img k (2 * i + r) (2 * j + c)"
    if "i < H div 2" "j < W div 2" "r < 2" "c < 2" "k < 3" for i j r c k
  proof -
    have "2 * i + r < H" "2 * j + c < W"
      using that ev by (auto elim!: evenE)
    then show ?thesis
      using that by (simp add: hwc_def permute_120_def at3_tabulate3 d)
  qed
  have "at3 (permute_201 st) 0 i j = at3 img 0 (2 * i) (2 * j) \<and>
        at3 (permute_201 st) 1 i j = at3 img 1 (2 * i) (2 * j + 1) \<and>
        at3 (permute_201 st) 2 i j = at3 img 1 (2 * i + 1) (2 * j) \<and>
        at3 (permute_201 st) 3 i j = at3 img 2 (2 * i + 1) (2 * j + 1)"
    if ij: "i < H div 2" "j < W div 2" for i j
    using el [OF _ ij, of 0] el [OF _ ij, of 1] el [OF _ ij, of 2] el [OF _ ij, of 3]
      px [OF ij, of 0 0 0] px [OF ij, of 0 1 1] px [OF ij, of 1 0 1] px [OF ij, of 1 1 2] ij
    by (simp add: ps_def strided_plane_def at2_tabulate2 dh half numeral_3_eq_3)
  then show ?thesis
    using m sh by blast
qed

text \<open>
  Claim C3.  For every image of shape \<open>(3, H, W)\<close> with \<open>H\<close> and \<open>W\<close> even, \<open>mosaic\<close>
  returns a tensor of shape \<open>(4, H/2, W/2)\<close> whose planes are: red from the even rows and
  even columns of channel 0, green-red from the even rows and odd columns of channel 1,
  green-blue from the odd rows and even columns of channel 1, blue from the odd rows and
  odd columns of channel 2.  At cell \<open>(0, 0)\<close> these are \<open>image[0,0,0]\<close>, \<open>image[1,0,1]\<close>,
  \<open>image[1,1,0]\<close> and \<open>image[2,1,1]\<close>.
\<close>

theorem mosaic_bayer_planes:
  assumes "has_shape img 3 H W" and "even H" and "even W"
  shows "\<exists>out. mosaic img = Inr out \<and> has_shape out 4 (H div 2) (W div 2) \<and>
           (\<forall>i<H div 2. \<forall>j<W div 2.
              at3 out 0 i j = at3 img 0 (2 * i) (2 * j) \<and>
              at3 out 1 i j = at3 img 1 (2 * i) (2 * j + 1) \<and>
              at3 out 2 i j = at3 img 1 (2 * i + 1) (2 * j) \<and>
              at3 out 3 i j = at3 img 2 (2 * i + 1) (2 * j + 1))"
  using assms mosaic_even [of img H W] by (simp add: has_shape_def)

theorem mosaic_bayer_planes_witness:
  "has_shape example_image 3 2 2 \<and> even (2::nat) \<and>
   (\<exists>out. mosaic example_image = Inr out \<and> has_shape out 4 1 1 \<and>
      at3 out 0 0 0 = at3 example_image 0 0 0 \<and> at3 out 1 0 0 = at3 example_image 1 0 1 \<and>
      at3 out 2 0 0 = at3 example_image 1 1 0 \<and> at3 out 3 0 0 = at3 example_image 2 1 1)"
proof -
  have sh: "has_shape example_image 3 2 2"
    by (simp add: example_image_def has_shape_def wf3_def)
  from mosaic_bayer_planes [OF sh] sh show ?thesis
    by fastforce
qed

section \<open>Random colour correction matrices\<close>

lemma upt3: "[0..<3] = [0, 1, 2]"
  by (simp add: upt_rec numeral_3_eq_3 numeral_2_eq_2)

lemma transpose_rgb2xyz:
  "transpose rgb2xyz =
     [[0.4124564, 0.2126729, 0.0193339],
      [0.3575761, 0.7151522, 0.1191920],
      [0.1804375, 0.0721750, 0.9503041]]"
  by (simp add: rgb2xyz_def transpose.simps)

lemma uniform_n_4:
  "uniform_n 4 lo hi s =
     ([lo + (hi - lo) * uniform_tape s (upos s), lo + (hi - lo) * uniform_tape s (upos s + 1),
       lo + (hi - lo) * uniform_tape s (upos s + 2), lo + (hi - lo) * uniform_tape s (upos s + 3)],
      s\<lparr>upos := upos s + 4\<rparr>)"
  by (simp add: numeral_eq_Suc uniform_def Let_def)

lemma weighted_sum_xyz2cams:
  "weighted_sum xyz2cams [w0, w1, w2, w3] =
     [[1.0234 * w0 + 0.4913 * w1 + 0.838 * w2 + 0.6596 * w3,
       - 0.2969 * w0 + - 0.0541 * w1 + - 0.263 * w2 + - 0.2079 * w3,
       - 0.2266 * w0 + - 0.0202 * w1 + - 0.0639 * w2 + - 0.0562 * w3],
      [- 0.5625 * w0 + - 0.613 * w1 + - 0.2887 * w2 + - 0.4782 * w3,
       1.6328 * w0 + 1.3513 * w1 + 1.0725 * w2 + 1.3016 * w3,
       - 0.0469 * w0 + 0.2906 * w1 + 0.2496 * w2 + 0.1933 * w3],
      [- 0.0703 * w0 + - 0.1564 * w1 + - 0.0627 * w2 + - 0.097 * w3,
       0.2188 * w0 + 0.2151 * w1 + 0.1427 * w2 + 0.1581 * w3,
       0.6406 * w0 + 0.7183 * w1 + 0.5438 * w2 + 0.5181 * w3]]"
  by (simp add: weighted_sum_def xyz2cams_def upt3)

lemma row_sum_rgb2xyz:
  "sum_list (map (dot [a0, a1, a2]) (transpose rgb2xyz))
   = a0 * 0.95047 + a1 * 1.0000001 + a2 * 1.08883"
  by (simp add: transpose_rgb2xyz dot_def algebra_simps)

lemma row_sum_scaled:
  "sum_list (map (dot [n0 / W, n1 / W, n2 / W]) (transpose rgb2xyz))
   = (n0 * 0.95047 + n1 * 1.0000001 + n2 * 1.08883) / W"
  by (simp only: row_sum_rgb2xyz add_divide_distrib times_divide_eq_left)

lemma row0_pos:
  assumes "0 < w0" "0 < w1" "0 < w2" "0 < (w3::real)"
  shows "0 < (1.0234 * w0 + 0.4913 * w1 + 0.838 * w2 + 0.6596 * w3) * 0.95047
           + (- 0.2969 * w0 + - 0.0541 * w1 + - 0.263 * w2 + - 0.2079 * w3) * 1.0000001
           + (- 0.2266 * w0 + - 0.0202 * w1 + - 0.0639 * w2 + - 0.0562 * w3) * 1.08883"
  using assms by (simp add: algebra_simps)

lemma row1_pos:
  assumes "0 < w0" "0 < w1" "0 < w2" "0 < (w3::real)"
  shows "0 < (- 0.5625 * w0 + - 0.613 * w1 + - 0.2887 * w2 + - 0.4782 * w3) * 0.95047
           + (1.6328 * w0 + 1.3513 * w1 + 1.0725 * w2 + 1.3016 * w3) * 1.0000001
           + (- 0.0469 * w0 + 0.2906 * w1 + 0.2496 * w2 + 0.1933 * w3) * 1.08883"
  using assms by (simp add: algebra_simps)

lemma row2_pos:
  assumes "0 < w0" "0 < w1" "0 < w2" "0 < (w3::real)"
  shows "0 < (- 0.0703 * w0 + - 0.1564 * w1 + - 0.0627 * w2 + - 0.097 * w3) * 0.95047
           + (0.2188 * w0 + 0.2151 * w1 + 0.1427 * w2 + 0.1581 * w3) * 1.0000001
           + (0.6406 * w0 + 0.7183 * w1 + 0.5438 * w2 + 0.5181 * w3) * 1.08883"
  using assms by (simp add: algebra_simps)

lemma sum_list_divide: "sum_list (map (\<lambda>x. x / c) xs) = sum_list xs / (c::real)"
  by (induction xs) (simp_all add: add_divide_distrib)

lemma length_xyz2cams: "length xyz2cams = 4"
  by (simp add: xyz2cams_def)

lemma normalize_rows:
  assumes "list_all (\<lambda>r. length r = 3 \<and> 0 < sum_list r) (R :: matrix)"
  shows "list_all (\<lambda>r. length r = 3 \<and> sum_list r = 1) (map (\<lambda>r. map (\<lambda>x. x / sum_list r) r) R)"
    and "\<not> list_ex (\<lambda>r. sum_list r = 0) R"
proof -
  have r: "length r = 3 \<and> 0 < sum_list r" if "r \<in> set R" for r
    using assms that by (simp add: list_all_iff)
  have "length (map (\<lambda>x. x / sum_list r) r) = 3 \<and> sum_list (map (\<lambda>x. x / sum_list r) r) = 1"
    if "r \<in> set R" for r
    using r [OF that] by (simp add: sum_list_divide)
  then show "list_all (\<lambda>r. length r = 3 \<and> sum_list r = 1)
               (map (\<lambda>r. map (\<lambda>x. x / sum_list r) r) R)"
    by (simp add: list_all_iff)
  show "\<not> list_ex (\<lambda>r. sum_list r = 0) R"
    using r by (fastforce simp: list_ex_iff)
qed

lemma ccm_weight_pos:
  assumes "valid_rng s"
  shows "0 < ccm_weight s k"
proof -
  have "0 \<le> uniform_tape s (upos s + k)"
    using assms by (simp add: valid_rng_def)
  then have "0 \<le> (10 ^ 8 - 1 / 10 ^ 8) * uniform_tape s (upos s + k)"
    by (intro mult_nonneg_nonneg) simp_all
  then show ?thesis
    unfolding ccm_weight_def by (intro add_pos_nonneg) simp_all
qed

lemma random_ccm_eq:
  assumes "valid_rng s"
  defines "ws \<equiv> [ccm_weight s 0, ccm_weight s 1, ccm_weight s 2, ccm_weight s 3]"
  defines "R \<equiv> mm (map (map (\<lambda>x. x / sum_list ws)) (weighted_sum xyz2cams ws)) rgb2xyz"
  shows "random_ccm s = (Inr (map (\<lambda>r. map (\<lambda>x. x / sum_list r) r) R), s\<lparr>upos := upos s + 4\<rparr>)"
    and "length R = 3" and "list_all (\<lambda>r. length r = 3 \<and> 0 < sum_list r) R"
proof -
  have pos: "0 < ccm_weight s 0" "0 < ccm_weight s 1" "0 < ccm_weight s 2" "0 < ccm_weight s 3"
    using assms(1) by (simp_all add: ccm_weight_pos)
  have W: "0 < sum_list ws"
    using pos by (simp add: ws_def)
  have Wsum: "sum_list ws = ccm_weight s 0 + ccm_weight s 1 + ccm_weight s 2 + ccm_weight s 3"
    by (simp add: ws_def)
  have draws: "uniform_n (length xyz2cams) (1 / 10 ^ 8) (10 ^ 8) s = (ws, s\<lparr>upos := upos s + 4\<rparr>)"
    by (simp add: length_xyz2cams uniform_n_4 ws_def ccm_weight_def)
  show len: "length R = 3"
    by (simp add: R_def mm_def ws_def weighted_sum_xyz2cams)
  show rows: "list_all (\<lambda>r. length r = 3 \<and> 0 < sum_list r) R"
    unfolding R_def mm_def ws_def weighted_sum_xyz2cams
    using row0_pos [OF pos] row1_pos [OF pos] row2_pos [OF pos] W
    by (simp add: row_sum_scaled Wsum [unfolded ws_def] ws_def) (simp add: transpose_rgb2xyz)
  show "random_ccm s = (Inr (map (\<lambda>r. map (\<lambda>x. x / sum_list r) r) R), s\<lparr>upos := upos s + 4\<rparr>)"
    unfolding random_ccm_def Let_def draws
    using W normalize_rows(2) [OF rows] by (simp add: R_def)
qed

text \<open>
  Claim C8.  For every outcome of the weight draws, \<open>random_ccm\<close> returns a \<open>3 \<times> 3\<close>
  matrix each of whose rows sums to 1, exactly over the reals.
\<close>

theorem random_ccm_rows_sum_to_one:
  assumes "valid_rng s"
  shows "\<exists>m s'. random_ccm s = (Inr m, s') \<and> length m = 3 \<and>
           list_all (\<lambda>r. length r = 3 \<and> sum_list r = 1) m"
  using random_ccm_eq [OF assms] normalize_rows(1) by fastforce

theorem random_ccm_rows_sum_to_one_witness:
  "valid_rng example_rng \<and>
   (\<exists>m s'. random_ccm example_rng = (Inr m, s') \<and> length m = 3 \<and>
      list_all (\<lambda>r. length r = 3 \<and> sum_list r = 1) m)"
proof -
  have v: "valid_rng example_rng"
    by (simp add: example_rng_def valid_rng_def)
  from random_ccm_rows_sum_to_one [OF v] v show ?thesis
    by simp
qed

section \<open>The pipeline\<close>

lemma wf3_permute_120: "wf3 (permute_120 t)"
  by (simp add: permute_120_def wf3_tabulate3)

lemma dims_gamma_expansion:
  "dim0 (gamma_expansion img) = dim0 img"
  "dim1 (gamma_expansion img) = dim1 img"
  "dim2 (gamma_expansion img) = dim2 img"
  by (simp_all add: gamma_expansion_def Let_def dims_permute_201 dims_tmap dims_permute_120)

lemma apply_ccm_dims:
  assumes "apply_ccm img m = Inr out"
  shows "dim0 out = dim0 img \<and> dim1 out = dim1 img \<and> dim2 out = dim2 img"
  using assms
  by (auto simp: apply_ccm_def Let_def reshape3_def dims_permute_201 dims_permute_120
      dims_tabulate3 split: sum.splits if_splits)

lemma apply_ccm_Inr:
  assumes "dim0 img = 3" "length m = 3" "list_all (\<lambda>r. length r = 3) m"
  shows "\<exists>out. apply_ccm img m = Inr out"
proof -
  define hwc where "hwc = permute_120 img"
  define n where "n = dim1 img * dim2 img"
  have len: "length (flat3 hwc) = n * 3"
    using length_flat3 [OF wf3_permute_120, of img]
    by (simp add: hwc_def n_def dims_permute_120 assms(1))
  define rows where "rows = map (\<lambda>i. map (\<lambda>k. flat3 hwc ! (i * 3 + k)) [0..<3]) [0..<n]"
  have r: "reshape_rows 3 (flat3 hwc) = Inr rows"
    by (simp add: reshape_rows_def len rows_def)
  define rows' where "rows' = map (\<lambda>p. map (\<lambda>r. dot p r) m) rows"
  have t: "tensordot_last 3 rows m = Inr rows'"
    by (simp add: tensordot_last_def assms(3) rows'_def)
  have "\<forall>p\<in>set rows'. length p = 3"
    by (auto simp: rows'_def assms(2))
  then have "length (concat rows') = length rows' * 3"
    by (rule length_concat_uniform)
  then have c: "length (concat rows') = dim1 img * dim2 img * 3"
    by (simp add: rows'_def rows_def n_def)
  have dh: "dim0 hwc = dim1 img" "dim1 hwc = dim2 img" "dim2 hwc = 3"
    by (simp_all add: hwc_def dims_permute_120 assms(1))
  show ?thesis
    unfolding apply_ccm_def Let_def hwc_def [symmetric]
    by (simp add: r t reshape3_def c dh)
qed

lemma safe_invert_gains_dims:
  assumes "safe_invert_gains img g r b = Inr out" "dim0 img = 3"
  shows "dim0 out = 3 \<and> dim1 out = dim1 img \<and> dim2 out = dim2 img"
proof -
  have nz: "g \<noteq> 0" "r \<noteq> 0" "b \<noteq> 0"
    using assms(1) by (auto simp: safe_invert_gains_def split: if_splits)
  show ?thesis
    using safe_invert_gains_at3(1) [OF nz assms(2,1)] by simp
qed

lemma unprocess_via_gt:
  "unprocess img s =
     (case unprocess_gt img s of
        (Inl e, s') \<Rightarrow> (Inl e, s')
      | (Inr (gt, md), s') \<Rightarrow>
          (case mosaic gt of Inl e \<Rightarrow> Inl e | Inr raw \<Rightarrow> Inr (raw, md), s'))"
  by (auto simp: unprocess_def unprocess_gt_def Let_def split: prod.splits sum.splits)

lemma unprocess_gt_chain:
  assumes "unprocess_gt img s = (Inr (gt, md), s')"
  shows "\<exists>a c. apply_ccm (gamma_expansion (inverse_smoothstep img)) (rgb2cam md) = Inr a \<and>
           safe_invert_gains a (rgb_gain md) (red_gain md) (blue_gain md) = Inr c \<and>
           gt = tmap (clamp 0 1) c"
  using assms
  by (auto simp: unprocess_gt_def Let_def split: prod.splits sum.splits)

lemma unprocess_gt_dims:
  assumes "unprocess_gt img s = (Inr (gt, md), s')" and "dim0 img = 3"
  shows "dim0 gt = 3 \<and> dim1 gt = dim1 img \<and> dim2 gt = dim2 img"
proof -
  obtain a c where a: "apply_ccm (gamma_expansion (inverse_smoothstep img)) (rgb2cam md) = Inr a"
    and c: "safe_invert_gains a (rgb_gain md) (red_gain md) (blue_gain md) = Inr c"
    and gt: "gt = tmap (clamp 0 1) c"
    using unprocess_gt_chain [OF assms(1)] by blast
  have da: "dim0 a = 3" "dim1 a = dim1 img" "dim2 a = dim2 img"
    using apply_ccm_dims [OF a] assms(2)
    by (simp_all add: dims_gamma_expansion dims_inverse_smoothstep)
  show ?thesis
    using safe_invert_gains_dims [OF c da(1)] da by (simp add: gt dims_tmap)
qed

lemma returned_run:
  assumes "\<not> isl (fst run)"
  shows "run = (Inr (fst (projr (fst run)), snd (projr (fst run))), snd run)"
  using assms by (cases run; cases "fst run") auto

lemma unprocess_gt_returns:
  assumes "valid_rng s" and "0.8 + 0.1 * normal_tape s (npos s) \<noteq> 0"
    and "\<not> isl (inverse3 (projr (fst (random_ccm s))))" and "dim0 img = 3"
  shows "\<not> isl (fst (unprocess_gt img s))"
proof -
  obtain m s1 where m: "random_ccm s = (Inr m, s1)" "length m = 3"
    "list_all (\<lambda>r. length r = 3 \<and> sum_list r = 1) m" and s1: "s1 = s\<lparr>upos := upos s + 4\<rparr>"
    using random_ccm_eq [OF assms(1)] normalize_rows(1) by fastforce
  have m3: "list_all (\<lambda>r. length r = 3) m"
    using m(3) by (simp add: list_all_iff)
  obtain mi where mi: "inverse3 m = Inr mi"
    using assms(3) m(1) by (cases "inverse3 m") simp_all
  have v1: "valid_rng s1"
    using assms(1) by (simp add: s1 valid_rng_def)
  obtain g r b s2 where g: "random_gains_default s1 = (Inr (g, r, b), s2)"
    using assms(2) by (simp add: random_gains_default_eq s1)
  have u: "0 \<le> uniform_tape s1 k" for k
    using v1 by (simp add: valid_rng_def)
  have nz: "g \<noteq> 0" "r \<noteq> 0" "b \<noteq> 0"
    using g u [of "upos s1"] u [of "upos s1 + 1"]
    by (auto simp: random_gains_default_eq split: if_splits)
  have d: "dim0 (gamma_expansion (inverse_smoothstep img)) = 3"
    using assms(4) by (simp add: dims_gamma_expansion dims_inverse_smoothstep)
  obtain a where a: "apply_ccm (gamma_expansion (inverse_smoothstep img)) m = Inr a"
    using apply_ccm_Inr [OF d m(2) m3] by blast
  obtain c where c: "safe_invert_gains a g r b = Inr c"
    using safe_invert_gains_Inr [OF nz] by blast
  show ?thesis
    by (simp add: unprocess_gt_def m(1) mi g a c Let_def)
qed

lemma valid_example_rng: "valid_rng example_rng"
  by (simp add: example_rng_def valid_rng_def)

lemma example_weight: "ccm_weight example_rng k = 10000000000000001 / 200000000"
  by (simp add: ccm_weight_def example_rng_def)

lemma example_ccm_inverse:
  "\<not> isl (inverse3 (projr (fst (random_ccm example_rng))))"
  by (simp add: random_ccm_eq(1) [OF valid_example_rng] example_weight weighted_sum_xyz2cams
      mm_def transpose_rgb2xyz dot_def Let_def)

lemma example_unprocess_gt:
  "dim0 img = 3 \<Longrightarrow> \<not> isl (fst (unprocess_gt img example_rng))"
  by (rule unprocess_gt_returns [OF valid_example_rng _ example_ccm_inverse])
    (simp_all add: example_rng_def)

text \<open>
  Claim C4.  From the same state of the generator, \<open>unprocess\<close> and \<open>unprocess_gt\<close> draw
  the same parameters, fail alike before the mosaic, and return the same metadata;
  the image of \<open>unprocess\<close> is \<open>mosaic\<close> applied to the image of \<open>unprocess_gt\<close>, which is
  the chain \<open>inverse_smoothstep\<close>, \<open>gamma_expansion\<close>, \<open>apply_ccm\<close> with \<open>rgb2cam\<close>,
  \<open>safe_invert_gains\<close>, clamp to \<open>[0, 1]\<close>.
\<close>

theorem unprocess_mosaics_unprocess_gt:
  "unprocess img s =
     (case unprocess_gt img s of
        (Inl e, s') \<Rightarrow> (Inl e, s')
      | (Inr (gt, md), s') \<Rightarrow>
          (case mosaic gt of Inl e \<Rightarrow> Inl e | Inr raw \<Rightarrow> Inr (raw, md), s')) \<and>
   (\<forall>gt md s'. unprocess_gt img s = (Inr (gt, md), s') \<longrightarrow>
      (\<exists>a c. apply_ccm (gamma_expansion (inverse_smoothstep img)) (rgb2cam md) = Inr a \<and>
             safe_invert_gains a (rgb_gain md) (red_gain md) (blue_gain md) = Inr c \<and>
             gt = tmap (clamp 0 1) c))"
  using unprocess_via_gt [of img s] unprocess_gt_chain [of img s] by blast

theorem unprocess_mosaics_unprocess_gt_witness:
  "unprocess_gt example_image example_rng = (Inr (example_gt, example_md), example_rng_after) \<and>
   (\<exists>a c. apply_ccm (gamma_expansion (inverse_smoothstep example_image)) (rgb2cam example_md)
             = Inr a \<and>
          safe_invert_gains a (rgb_gain example_md) (red_gain example_md) (blue_gain example_md)
             = Inr c \<and>
          example_gt = tmap (clamp 0 1) c) \<and>
   (\<exists>raw. mosaic example_gt = Inr raw \<and>
      unprocess example_image example_rng = (Inr (raw, example_md), example_rng_after))"
proof -
  have d: "dim0 example_image = 3" "dim1 example_image = 2" "dim2 example_image = 2"
    by (simp_all add: example_image_def)
  have run: "unprocess_gt example_image example_rng
             = (Inr (example_gt, example_md), example_rng_after)"
    unfolding example_gt_def example_md_def example_rng_after_def
    by (rule returned_run) (rule example_unprocess_gt [OF d(1)])
  have dg: "dim0 example_gt = 3" "dim1 example_gt = 2" "dim2 example_gt = 2"
    using unprocess_gt_dims [OF run d(1)] d by simp_all
  obtain raw where raw: "mosaic example_gt = Inr raw"
    using mosaic_even [OF dg] by auto
  have "unprocess example_image example_rng = (Inr (raw, example_md), example_rng_after)"
    using unprocess_mosaics_unprocess_gt [of example_image example_rng] run raw by simp
  moreover have "\<exists>a c. apply_ccm (gamma_expansion (inverse_smoothstep example_image))
                          (rgb2cam example_md) = Inr a \<and>
          safe_invert_gains a (rgb_gain example_md) (red_gain example_md) (blue_gain example_md)
             = Inr c \<and>
          example_gt = tmap (clamp 0 1) c"
    using unprocess_mosaics_unprocess_gt [of example_image example_rng] run by blast
  ultimately show ?thesis
    using run raw by blast
qed

text \<open>
  Claim C6, as amended.  For every image of shape \<open>(3, H, W)\<close> with \<open>H\<close> or \<open>W\<close> odd,
  whenever the stages before the mosaic complete, \<open>unprocess\<close> fails inside \<open>mosaic\<close>,
  with the size mismatch that \<^verbatim>\<open>torch.stack\<close> raises.
\<close>

theorem unprocess_odd_fails_in_mosaic:
  assumes "has_shape img 3 H W" and "odd H \<or> odd W"
    and "\<not> isl (fst (unprocess_gt img s))"
  shows "fst (unprocess img s) = Inl StackSizeMismatch"
proof -
  have d: "dim0 img = 3" "dim1 img = H" "dim2 img = W"
    using assms(1) by (simp_all add: has_shape_def)
  obtain gt md s' where run: "unprocess_gt img s = (Inr (gt, md), s')"
    using returned_run [OF assms(3)] by blast
  have "odd (dim1 gt) \<or> odd (dim2 gt)"
    using unprocess_gt_dims [OF run d(1)] assms(2) d by simp
  then have "mosaic gt = Inl StackSizeMismatch"
    by (rule mosaic_odd)
  then show ?thesis
    by (simp add: unprocess_via_gt [of img s] run)
qed

theorem unprocess_odd_fails_in_mosaic_witness:
  "has_shape example_wide_image 3 1 2 \<and> \<not> isl (fst (unprocess_gt example_wide_image example_rng)) \<and>
   fst (unprocess example_wide_image example_rng) = Inl StackSizeMismatch"
proof -
  have sh: "has_shape example_wide_image 3 1 2"
    by (simp add: example_wide_image_def has_shape_def wf3_def)
  have ok: "\<not> isl (fst (unprocess_gt example_wide_image example_rng))"
    by (rule example_unprocess_gt) (simp add: example_wide_image_def)
  from unprocess_odd_fails_in_mosaic [OF sh _ ok] sh ok show ?thesis
    by simp
qed

text \<open>
  Claim C6 as stated fails: nothing checks the shape before the mosaic.  On a
  \<open>1 \<times> 1\<close> image every stage before the mosaic completes (\<open>unprocess_gt\<close>, which is those
  stages, returns), and the only failure is the one \<open>mosaic\<close> itself raises on their
  output.
\<close>

theorem unprocess_odd_not_rejected_before_mosaic:
  "has_shape example_white_pixel 3 1 1 \<and>
   \<not> isl (fst (unprocess_gt example_white_pixel example_rng)) \<and>
   mosaic (fst (projr (fst (unprocess_gt example_white_pixel example_rng))))
     = Inl StackSizeMismatch"
proof -
  have sh: "has_shape example_white_pixel 3 1 1"
    by (simp add: example_white_pixel_def has_shape_def wf3_def)
  have d: "dim0 example_white_pixel = 3" "dim1 example_white_pixel = 1"
    by (simp_all add: example_white_pixel_def)
  have ok: "\<not> isl (fst (unprocess_gt example_white_pixel example_rng))"
    by (rule example_unprocess_gt [OF d(1)])
  have "odd (dim1 (fst (projr (fst (unprocess_gt example_white_pixel example_rng)))))"
    using unprocess_gt_dims [OF returned_run [OF ok] d(1)] d(2) by simp
  then have "mosaic (fst (projr (fst (unprocess_gt example_white_pixel example_rng))))
      = Inl StackSizeMismatch"
    by (intro mosaic_odd) simp
  then show ?thesis
    using sh ok by simp
qed

end
